theory Spec2Isabelle
  imports Main "HOL-Library.Word"
begin

section \<open>Values shared by the whole package\<close>

type_synonym byte = "8 word"

text \<open>
  Go's \<open>error\<close> interface, as the values this package can produce or receive.
  The first block are the errors of the transport (\<open>io.EOF\<close>, \<open>io.ErrUnexpectedEOF\<close>, a
  deadline that expired, any other error of a \<open>net.Conn\<close>); the second the \<open>parseError\<close>
  values of wire.go; the third the exported errors of server.go. \<open>Errorf f e\<close> is
  \<open>fmt.Errorf(f, e)\<close>, \<open>ErrorsNew m\<close> is \<open>errors.New(m)\<close>, and \<open>PanicNilPointer\<close> is the
  run-time panic of a method called through a nil socket pointer.
\<close>

datatype error =
    EOF
  | ErrUnexpectedEOF
  | ErrTimeout
  | ErrNet string
  | errCouldNotReadData
  | errNotEnoughDataInResponse
  | errBadData
  | ErrRCONAuthFailed
  | ErrRCONNotInitialized
  | ErrInvalidResponseType
  | ErrInvalidResponseID
  | ErrInvalidResponseTrailer
  | Errorf string error
  | ErrorsNew string
  | PanicNilPointer

text \<open>Go's conversion \<open>string(bs)\<close> of a byte slice: one character per byte.\<close>

definition string_of_bytes :: "byte list \<Rightarrow> string" where
  "string_of_bytes bs = map (\<lambda>b. char_of (unat b)) bs"

section \<open>Readers\<close>

text \<open>
  An \<open>io.Reader\<close> is a state \<open>'r\<close> with its \<open>Read\<close> method: called with the length of the
  buffer, it returns the bytes it stored at the front of the buffer and an optional error.
\<close>

type_synonym 'r Reader = "'r \<Rightarrow> nat \<Rightarrow> (byte list \<times> error option) \<times> 'r"

text \<open>
  \<open>bytes.Buffer.Read\<close>: the state is the unread part. An empty buffer returns \<open>io.EOF\<close>
  (nothing, without error, when the caller's buffer has length 0).
\<close>

definition buffer_Read :: "(byte list) Reader" where
  "buffer_Read bs k =
     (if bs = [] then (if k = 0 then (([], None), []) else (([], Some EOF), []))
      else ((take k bs, None), drop k bs))"

text \<open>
  \<open>io.ReadAtLeast\<close> with \<open>min = len(buf)\<close>, as \<open>io.ReadFull\<close> calls it: the loop
  \<open>for n < min && err == nil\<close>, which a reader that keeps returning nothing without an
  error never leaves.
\<close>

partial_function (option) ReadAtLeast_loop ::
  "'r Reader \<Rightarrow> 'r \<Rightarrow> nat \<Rightarrow> byte list \<Rightarrow> error option \<Rightarrow> ((byte list \<times> error option) \<times> 'r) option"
where
  "ReadAtLeast_loop rd r k acc err =
     (if length acc < k \<and> err = None then
        (case rd r (k - length acc) of
           ((bs, err'), r') \<Rightarrow> ReadAtLeast_loop rd r' k (acc @ bs) err')
      else Some ((acc, err), r))"

definition ReadFull :: "'r Reader \<Rightarrow> 'r \<Rightarrow> nat \<Rightarrow> ((byte list \<times> error option) \<times> 'r) option" where
  "ReadFull rd r k =
     (case ReadAtLeast_loop rd r k [] None of
        None \<Rightarrow> None
      | Some ((acc, err), r') \<Rightarrow>
          Some ((acc,
                 if k \<le> length acc then None
                 else if acc \<noteq> [] \<and> err = Some EOF then Some ErrUnexpectedEOF
                 else err), r'))"

section \<open>wire.go\<close>

text \<open>
  Modelled from the spec: \<open>must\<close> is not among the sources. The codec operations "fail with
  ParseError{CouldNotReadData} if the underlying read is short/erroring": \<open>must err\<close> is the
  value the panic carries when \<open>err\<close> is not nil.
\<close>

definition must :: "error \<Rightarrow> error" where
  "must err = errCouldNotReadData"

text \<open>Little-endian decoding of four bytes (\<open>binary.LittleEndian.Uint32\<close>).\<close>

definition le32 :: "byte list \<Rightarrow> 32 word" where
  "le32 bs = foldr (\<lambda>b acc. ucast b + 256 * acc) (take 4 bs) 0"

text \<open>
  \<open>readLong\<close>: \<open>binary.Read\<close> of an int32 reads four bytes with \<open>io.ReadFull\<close>; an error
  goes to \<open>must\<close>, which panics (\<open>Inl\<close>).
\<close>

definition readLong :: "'r Reader \<Rightarrow> 'r \<Rightarrow> ((error + 32 word) \<times> 'r) option" where
  "readLong rd r =
     (case ReadFull rd r 4 of
        None \<Rightarrow> None
      | Some ((bs, Some e), r') \<Rightarrow> Some (Inl (must e), r')
      | Some ((bs, None), r') \<Rightarrow> Some (Inr (le32 bs), r'))"

text \<open>
  \<open>readString\<close>: the one-byte buffer \<open>b\<close> keeps its last content (\<open>b0\<close>) when a read
  stores nothing; \<open>buf\<close> is the \<open>bytes.Buffer\<close> that collects the string.
\<close>

partial_function (option) readString_loop ::
  "'r Reader \<Rightarrow> 'r \<Rightarrow> byte \<Rightarrow> byte list \<Rightarrow> ((error + string) \<times> 'r) option"
where
  "readString_loop rd r b0 buf =
     (case ReadFull rd r 1 of
        None \<Rightarrow> None
      | Some ((bs, Some e), r') \<Rightarrow> Some (Inl (must e), r')
      | Some ((bs, None), r') \<Rightarrow>
          (let b0' = (case bs of [] \<Rightarrow> b0 | x # _ \<Rightarrow> x)
           in if b0' = 0 then Some (Inr (string_of_bytes buf), r')
              else readString_loop rd r' b0' (buf @ [b0'])))"

definition readString :: "'r Reader \<Rightarrow> 'r \<Rightarrow> ((error + string) \<times> 'r) option" where
  "readString rd r = readString_loop rd r 0 []"

text \<open>
  \<open>requestPrefix\<close>, and \<open>writeLong\<close> as the bytes it appends to the buffer
  (\<open>binary.Write\<close> of an int32, little-endian).
\<close>

definition requestPrefix :: "byte list" where
  "requestPrefix = [0xFF, 0xFF, 0xFF, 0xFF]"

definition writeLong :: "32 word \<Rightarrow> byte list" where
  "writeLong v = [ucast v, ucast (drop_bit 8 v), ucast (drop_bit 16 v), ucast (drop_bit 24 v)]"

section \<open>rconsocket.go\<close>

text \<open>
  The \<open>net.Conn\<close> of the RCON socket, as the code can observe it. \<open>incoming\<close> is what the
  peer delivers, in order: each element is a chunk of bytes and the error the read that
  takes the end of the chunk returns with it. Once nothing is left, every \<open>Read\<close> returns
  no bytes and the error \<open>idle\<close> (\<open>EOF\<close> for a peer that closed, \<open>ErrTimeout\<close> for one
  that stays silent until the read deadline). \<open>rdl_errs\<close>, \<open>wdl_errs\<close> and \<open>write_errs\<close> are
  the results of the coming calls of \<open>SetReadDeadline\<close>, \<open>SetWriteDeadline\<close> and \<open>Write\<close>
  (success when nothing is left). \<open>written\<close> records the buffers passed to \<open>Write\<close>,
  \<open>closed\<close> that \<open>Close\<close> was called. Every read of the model returns: a read that
  blocks for ever because no deadline is in force is not modelled.
\<close>

record conn =
  incoming :: "(byte list \<times> error option) list"
  idle :: error
  rdl_errs :: "error option list"
  wdl_errs :: "error option list"
  write_errs :: "error option list"
  written :: "byte list list"
  closed :: bool

definition conn_Read :: "conn Reader" where
  "conn_Read c k =
     (case incoming c of
        [] \<Rightarrow> (([], Some (idle c)), c)
      | (bs, e) # rest \<Rightarrow>
          (if k < length bs then ((take k bs, None), c\<lparr>incoming := (drop k bs, e) # rest\<rparr>)
           else ((bs, e), c\<lparr>incoming := rest\<rparr>)))"

definition conn_SetReadDeadline :: "conn \<Rightarrow> error option \<times> conn" where
  "conn_SetReadDeadline c =
     (case rdl_errs c of [] \<Rightarrow> (None, c) | e # es \<Rightarrow> (e, c\<lparr>rdl_errs := es\<rparr>))"

definition conn_SetWriteDeadline :: "conn \<Rightarrow> error option \<times> conn" where
  "conn_SetWriteDeadline c =
     (case wdl_errs c of [] \<Rightarrow> (None, c) | e # es \<Rightarrow> (e, c\<lparr>wdl_errs := es\<rparr>))"

definition conn_Write :: "conn \<Rightarrow> byte list \<Rightarrow> error option \<times> conn" where
  "conn_Write c p =
     (case write_errs c of
        [] \<Rightarrow> (None, c\<lparr>written := written c @ [p]\<rparr>)
      | e # es \<Rightarrow> (e, c\<lparr>write_errs := es, written := written c @ [p]\<rparr>))"

definition conn_Close :: "conn \<Rightarrow> conn" where
  "conn_Close c = c\<lparr>closed := True\<rparr>"

text \<open>\<open>rconSocket.close\<close> and \<open>rconSocket.send\<close>.\<close>

definition rcon_close :: "conn \<Rightarrow> conn" where
  "rcon_close c = conn_Close c"

definition rcon_send :: "conn \<Rightarrow> byte list \<Rightarrow> error option \<times> conn" where
  "rcon_send c p =
     (case conn_SetWriteDeadline c of
        (Some err, c1) \<Rightarrow> (Some err, c1)
      | (None, c1) \<Rightarrow> conn_Write c1 p)"

text \<open>
  \<open>io.TeeReader(s.conn, buf)\<close>: the state is the connection and the buffer; what a read
  returns is also written to the buffer.
\<close>

definition TeeReader_Read :: "'r Reader \<Rightarrow> ('r \<times> byte list) Reader" where
  "TeeReader_Read rd rw k =
     (case rd (fst rw) k of
        ((bs, err), r') \<Rightarrow> ((bs, err), (r', if bs \<noteq> [] then snd rw @ bs else snd rw)))"

text \<open>
  The loop of \<open>rconSocket.receive\<close>. Each round allocates \<open>b\<close> with \<open>total\<close> zero bytes;
  \<open>Read\<close> fills its first \<open>n\<close> bytes; when \<open>n > 0\<close> the whole of \<open>b\<close> is written to
  \<open>buf\<close> and \<open>total\<close> (here \<open>tot\<close>) decreases by \<open>n\<close>. Of the read's errors only \<open>io.EOF\<close> leaves the
  loop. The result is \<open>None\<close> when the loop never ends.
\<close>

partial_function (option) receive_loop ::
  "conn \<Rightarrow> int \<Rightarrow> byte list \<Rightarrow> ((error + byte list) \<times> conn) option"
where
  "receive_loop c tot buf =
     (if 0 < tot then
        (case conn_SetReadDeadline c of
           (Some err, c1) \<Rightarrow> Some (Inl err, c1)
         | (None, c1) \<Rightarrow>
             (case conn_Read c1 (nat tot) of
                ((bs, err), c2) \<Rightarrow>
                  (let n = length bs;
                       b = bs @ replicate (nat tot - n) 0;
                       buf' = (if 0 < n then buf @ b else buf);
                       tot' = (if 0 < n then tot - int n else tot)
                   in if err = Some EOF
                      then Some (Inl (Errorf ''steam: could not receive data (%v)'' EOF), c2)
                      else receive_loop c2 tot' buf')))
      else Some (Inr buf, c))"

text \<open>
  \<open>rconSocket.receive\<close>: the length prefix is read through the tee reader; a panic of
  \<open>readLong\<close> is recovered and returned as the error.
\<close>

definition receive :: "conn \<Rightarrow> ((error + byte list) \<times> conn) option" where
  "receive c =
     (case readLong (TeeReader_Read conn_Read) (c, []) of
        None \<Rightarrow> None
      | Some (Inl r, (c1, buf)) \<Rightarrow> Some (Inl r, c1)
      | Some (Inr v, (c1, buf)) \<Rightarrow> receive_loop c1 (sint v) buf)"

section \<open>The RCON frames\<close>

text \<open>
  Modelled from the spec: rcon.go is not among the sources. A frame has an id, a type
  (the spec's \<open>enum{AUTH, AUTH_RESPONSE, EXEC_COMMAND, RESPONSE_VALUE}\<close>) and a body; the
  size and the two terminating null bytes exist on the wire only.
\<close>

datatype rconRequestType = rrtAuth | rrtAuthResp | rrtExecCmd | rrtRespValue

record rconRequest =
  req_id :: "32 word"
  req_typ :: rconRequestType
  req_body :: string

record rconResponse =
  resp_id :: "32 word"
  resp_typ :: rconRequestType
  resp_body :: "byte list"

text \<open>
  Modelled from the spec: \<open>newRCONRequest\<close> allocates "a fresh monotonically-distinguishable
  id (an incrementing counter seeded per process)". The counter is passed in and returned.
\<close>

definition newRCONRequest :: "rconRequestType \<Rightarrow> string \<Rightarrow> 32 word \<Rightarrow> rconRequest \<times> 32 word" where
  "newRCONRequest t b ctr = (\<lparr>req_id = ctr + 1, req_typ = t, req_body = b\<rparr>, ctr + 1)"

text \<open>The bytes of a Go string, as \<open>bytes.Buffer.WriteString\<close> appends them.\<close>

definition bytes_of_string :: "string \<Rightarrow> byte list" where
  "bytes_of_string str = map (\<lambda>ch. of_nat (of_char ch)) str"

text \<open>
  Modelled from the spec: the numeric types of the wire format, "0=RESPONSE_VALUE,
  2=EXEC_COMMAND, 3=AUTH"; a reply of type 2 is the AUTH_RESPONSE of the target protocol.
\<close>

definition rrt_code :: "rconRequestType \<Rightarrow> 32 word" where
  "rrt_code t = (case t of rrtAuth \<Rightarrow> 3 | rrtAuthResp \<Rightarrow> 2 | rrtExecCmd \<Rightarrow> 2 | rrtRespValue \<Rightarrow> 0)"

text \<open>
  Modelled from the spec: \<open>rconRequest.marshalBinary\<close>. "Prefix with little-endian length =
  4 (id) + 4 (type) + len(body) + 1 (terminator) + 1 (null); fields in order: length, id,
  type, body (null-terminated), empty-string terminator (null)."
\<close>

definition marshalBinary :: "rconRequest \<Rightarrow> byte list" where
  "marshalBinary req =
     writeLong (of_nat (4 + 4 + length (req_body req) + 1 + 1)) @ writeLong (req_id req) @
     writeLong (rrt_code (req_typ req)) @ bytes_of_string (req_body req) @ [0] @ [0]"

text \<open>
  Modelled from the spec: \<open>rconResponse.unmarshalBinary\<close>. "Read length, id, type, then the
  remaining bytes up to length are the body (strip the two trailing null bytes); fails with
  NotEnoughDataInResponse if declared length exceeds available bytes, BadData if type is
  unrecognized." Data too short for the three integers fails as the codec's reads do.
\<close>

definition unmarshalBinary :: "byte list \<Rightarrow> error + rconResponse" where
  "unmarshalBinary data =
     (if length data < 12 then Inl errCouldNotReadData
      else
        (let size = sint (le32 data); ident = le32 (drop 4 data); code = le32 (drop 8 data)
         in if int (length data) - 4 < size then Inl errNotEnoughDataInResponse
            else if code = 0
              then Inr \<lparr>resp_id = ident, resp_typ = rrtRespValue,
                        resp_body = take (nat (size - 10)) (drop 12 data)\<rparr>
            else if code = 2
              then Inr \<lparr>resp_id = ident, resp_typ = rrtAuthResp,
                        resp_body = take (nat (size - 10)) (drop 12 data)\<rparr>
            else Inl errBadData))"

section \<open>The query socket and the query frames\<close>

text \<open>
  Modelled from the spec: udpsocket.go is not among the sources. "Send sets a short write
  deadline then writes the full datagram; receive sets a short read deadline then reads one
  datagram and returns exactly the bytes received; timeouts surface as errors to the
  caller." The socket is modelled with its environment: \<open>u_sends\<close> and \<open>u_recvs\<close> are the
  outcomes of the coming calls, each with the time the call takes (in nanoseconds); a send
  succeeds at once and a receive times out after 400 ms when nothing is left. \<open>u_now\<close> is
  the wall clock that \<open>time.Now\<close> reads, \<open>u_calls\<close> the calls made so far, \<open>u_closed\<close> that
  \<open>close\<close> was called.
\<close>

datatype udp_call = USend "byte list" | UReceive

record udpSocket =
  u_sends :: "(nat \<times> error option) list"
  u_recvs :: "(nat \<times> (error + byte list)) list"
  u_now :: nat
  u_calls :: "udp_call list"
  u_closed :: bool

definition udp_send :: "udpSocket \<Rightarrow> byte list \<Rightarrow> error option \<times> udpSocket" where
  "udp_send u p =
     (case u_sends u of
        [] \<Rightarrow> (None, u\<lparr>u_calls := u_calls u @ [USend p]\<rparr>)
      | (d, e) # rest \<Rightarrow>
          (e, u\<lparr>u_sends := rest, u_now := u_now u + d, u_calls := u_calls u @ [USend p]\<rparr>))"

definition udp_receive :: "udpSocket \<Rightarrow> (error + byte list) \<times> udpSocket" where
  "udp_receive u =
     (case u_recvs u of
        [] \<Rightarrow> (Inl ErrTimeout, u\<lparr>u_now := u_now u + 400000000, u_calls := u_calls u @ [UReceive]\<rparr>)
      | (d, r) # rest \<Rightarrow>
          (r, u\<lparr>u_recvs := rest, u_now := u_now u + d, u_calls := u_calls u @ [UReceive]\<rparr>))"

definition udp_close :: "udpSocket \<Rightarrow> udpSocket" where
  "udp_close u = u\<lparr>u_closed := True\<rparr>"

text \<open>
  The query frames (info.go, players.go and challenge.go are not among the sources) are
  parameters of the operations that use them: the two request encoders take the request's
  challenge field (an int32, 0 in \<open>infoRequest{}\<close> and \<open>playersInfoRequest{}\<close>), the decoders
  return an error or the decoded value. The info and players responses are opaque.
\<close>

record ('i, 'p) queryCodec =
  infoRequest_marshalBinary :: "32 word \<Rightarrow> byte list"
  playersInfoRequest_marshalBinary :: "32 word \<Rightarrow> byte list"
  isChallengeResponse :: "byte list \<Rightarrow> bool"
  ChallengeResponse_unmarshalBinary :: "byte list \<Rightarrow> error + 32 word"
  InfoResponse_unmarshalBinary :: "byte list \<Rightarrow> error + 'i"
  PlayersInfoResponse_unmarshalBinary :: "byte list \<Rightarrow> error + 'p"

section \<open>server.go\<close>

text \<open>
  \<open>DialFn\<close>: the injected dialer. The code calls it with the network "tcp"
  (\<open>newRCONSocket\<close>) and, for the query socket, "udp"; the result is an error or the new
  connection.
\<close>

record DialFn =
  dial_udp :: "string \<Rightarrow> error + udpSocket"
  dial_tcp :: "string \<Rightarrow> error + conn"

record ConnectOptions =
  Dial :: "DialFn option"
  RCONPassword :: string

text \<open>
  The \<open>Server\<close> struct. A nil socket pointer is \<open>None\<close>. \<open>rconRequestID\<close> is not a field of
  the struct: it is the id counter of the process (see \<open>newRCONRequest\<close>), kept here so
  that the operations can pass it on. The mutex is not modelled: one operation runs at a
  time.
\<close>

record Server =
  addr :: string
  dial :: DialFn
  rconPassword :: string
  usock :: "udpSocket option"
  udpInitialized :: bool
  rsock :: "conn option"
  rconInitialized :: bool
  rconRequestID :: "32 word"

definition trailer :: "byte list" where
  "trailer = [0x00, 0x01, 0x00, 0x00]"

text \<open>Modelled from the spec: \<open>newUDPSocket\<close> (udpsocket.go) opens the query socket with the dialer.\<close>

definition newUDPSocket :: "DialFn \<Rightarrow> string \<Rightarrow> error + udpSocket" where
  "newUDPSocket d a = dial_udp d a"

definition newRCONSocket :: "DialFn \<Rightarrow> string \<Rightarrow> error + conn" where
  "newRCONSocket d a = (case dial_tcp d a of Inl err \<Rightarrow> Inl err | Inr c \<Rightarrow> Inr c)"

text \<open>\<open>Server.init\<close>.\<close>

definition Server_init :: "Server \<Rightarrow> error option \<times> Server" where
  "Server_init s =
     (if addr s = [] then (Some (ErrorsNew ''steam: server needs a address''), s)
      else
        (case newUDPSocket (dial s) (addr s) of
           Inl err \<Rightarrow> (Some (Errorf ''steam: could not open udp socket (%v)'' err), s\<lparr>usock := None\<rparr>)
         | Inr u \<Rightarrow> (None, s\<lparr>usock := Some u\<rparr>)))"

text \<open>
  \<open>Server.authenticate\<close>. The result is the returned error (\<open>None\<close> for nil) and the server
  after the call; the whole is \<open>None\<close> when a receive never returns.
\<close>

definition authenticate :: "Server \<Rightarrow> (error option \<times> Server) option" where
  "authenticate s =
     (let (req, ctr) = newRCONRequest rrtAuth (rconPassword s) (rconRequestID s);
          s0 = s\<lparr>rconRequestID := ctr\<rparr>
      in case rsock s of
           None \<Rightarrow> Some (Some PanicNilPointer, s0)
         | Some c \<Rightarrow>
             (case rcon_send c (marshalBinary req) of
                (Some err, c1) \<Rightarrow> Some (Some err, s0\<lparr>rsock := Some c1\<rparr>)
              | (None, c1) \<Rightarrow>
                  (case receive c1 of
                     None \<Rightarrow> None
                   | Some (Inl err, c2) \<Rightarrow> Some (Some err, s0\<lparr>rsock := Some c2\<rparr>)
                   | Some (Inr data, c2) \<Rightarrow>
                       (case unmarshalBinary data of
                          Inl err \<Rightarrow> Some (Some err, s0\<lparr>rsock := Some c2\<rparr>)
                        | Inr resp \<Rightarrow>
                            if resp_typ resp \<noteq> rrtRespValue \<or> resp_id resp \<noteq> req_id req
                            then Some (Some ErrInvalidResponseID, s0\<lparr>rsock := Some c2\<rparr>)
                            else if resp_id resp \<noteq> req_id req
                            then Some (Some ErrInvalidResponseType, s0\<lparr>rsock := Some c2\<rparr>)
                            else
                              (case receive c2 of
                                 None \<Rightarrow> None
                               | Some (Inl err, c3) \<Rightarrow> Some (Some err, s0\<lparr>rsock := Some c3\<rparr>)
                               | Some (Inr data', c3) \<Rightarrow>
                                   (case unmarshalBinary data' of
                                      Inl err \<Rightarrow> Some (Some err, s0\<lparr>rsock := Some c3\<rparr>)
                                    | Inr resp' \<Rightarrow>
                                        if resp_typ resp' \<noteq> rrtAuthResp \<or> resp_id resp' \<noteq> req_id req
                                        then Some (Some ErrRCONAuthFailed, s0\<lparr>rsock := Some c3\<rparr>)
                                        else Some (None, s0\<lparr>rsock := Some c3\<rparr>)))))))"

text \<open>
  \<open>Server.initRCON\<close>. The deferred function closes the RCON socket when the named result
  \<open>err\<close> is not nil; it is registered after the socket has been opened.
\<close>

definition initRCON :: "Server \<Rightarrow> (error option \<times> Server) option" where
  "initRCON s =
     (if addr s = [] then Some (Some (ErrorsNew ''steam: server needs a address''), s)
      else
        (case newRCONSocket (dial s) (addr s) of
           Inl err \<Rightarrow>
             Some (Some (Errorf ''steam: could not open tcp socket (%v)'' err), s\<lparr>rsock := None\<rparr>)
         | Inr c \<Rightarrow>
             (case authenticate (s\<lparr>rsock := Some c\<rparr>) of
                None \<Rightarrow> None
              | Some (Some err, s1) \<Rightarrow>
                  Some (Some (Errorf ''steam: could not authenticate (%v)'' err),
                        s1\<lparr>rsock := map_option rcon_close (rsock s1)\<rparr>)
              | Some (None, s1) \<Rightarrow> Some (None, s1\<lparr>rconInitialized := True\<rparr>))))"

text \<open>
  \<open>Connect\<close>. \<open>net_Dial\<close> is the dialer of the standard library, used when the options name
  none; \<open>ctr\<close> is the process's id counter; \<open>os\<close> are the variadic options (a nil pointer
  is \<open>None\<close>). The result is the returned error and the server object as the call leaves
  it; Go returns the object only when the error is nil. The deferred function, registered
  once a password is known to be set, closes the query socket when the named result
  \<open>err\<close> is not nil.
\<close>

definition Connect ::
  "DialFn \<Rightarrow> 32 word \<Rightarrow> string \<Rightarrow> ConnectOptions option list \<Rightarrow> (error option \<times> Server) option"
where
  "Connect net_Dial ctr a os =
     (let s = \<lparr>addr = a, dial = net_Dial, rconPassword = [], usock = None,
               udpInitialized = False, rsock = None, rconInitialized = False,
               rconRequestID = ctr\<rparr>
      in case os of
           None # _ \<Rightarrow> Some (Some PanicNilPointer, s)
         | _ \<Rightarrow>
             (let s0 = (case os of
                          Some opt # _ \<Rightarrow>
                            s\<lparr>dial := (case Dial opt of None \<Rightarrow> net_Dial | Some d \<Rightarrow> d),
                              rconPassword := RCONPassword opt\<rparr>
                        | _ \<Rightarrow> s)
              in case Server_init s0 of
                   (Some err, s1) \<Rightarrow> Some (Some err, s1)
                 | (None, s1) \<Rightarrow>
                     if rconPassword s1 = [] then Some (None, s1)
                     else
                       (case initRCON s1 of
                          None \<Rightarrow> None
                        | Some (Some err, s2) \<Rightarrow>
                            Some (Some err, s2\<lparr>usock := map_option udp_close (usock s2)\<rparr>)
                        | Some (None, s2) \<Rightarrow> Some (None, s2))))"

text \<open>\<open>Server.Close\<close>.\<close>

definition Close :: "Server \<Rightarrow> Server" where
  "Close s =
     (let s1 = (if rconInitialized s then s\<lparr>rsock := map_option rcon_close (rsock s)\<rparr> else s)
      in s1\<lparr>usock := map_option udp_close (usock s1)\<rparr>)"

text \<open>
  \<open>Server.Ping\<close>. \<open>start\<close> is \<open>time.Now()\<close> before the send, the result
  \<open>time.Since(start)\<close> after the receive. The error of the send is dropped.
\<close>

definition Ping :: "('i, 'p) queryCodec \<Rightarrow> Server \<Rightarrow> (error + nat) \<times> Server" where
  "Ping Q s =
     (case usock s of
        None \<Rightarrow> (Inl PanicNilPointer, s)
      | Some u \<Rightarrow>
          (let req = infoRequest_marshalBinary Q 0;
               start = u_now u;
               (_, u1) = udp_send u req
           in case udp_receive u1 of
                (Inl err, u2) \<Rightarrow> (Inl err, s\<lparr>usock := Some u2\<rparr>)
              | (Inr _, u2) \<Rightarrow> (Inr (u_now u2 - start), s\<lparr>usock := Some u2\<rparr>)))"

text \<open>\<open>Server.Info\<close>.\<close>

definition Info :: "('i, 'p) queryCodec \<Rightarrow> Server \<Rightarrow> (error + 'i) \<times> Server" where
  "Info Q s =
     (case usock s of
        None \<Rightarrow> (Inl PanicNilPointer, s)
      | Some u \<Rightarrow>
          (case udp_send u (infoRequest_marshalBinary Q 0) of
             (Some err, u1) \<Rightarrow> (Inl err, s\<lparr>usock := Some u1\<rparr>)
           | (None, u1) \<Rightarrow>
               (case udp_receive u1 of
                  (Inl err, u2) \<Rightarrow>
                    (Inl (Errorf ''steam: could not receive info response (%v)'' err),
                     s\<lparr>usock := Some u2\<rparr>)
                | (Inr data, u2) \<Rightarrow>
                    (let unmarshal = (\<lambda>d. case InfoResponse_unmarshalBinary Q d of
                            Inl err \<Rightarrow> Inl (Errorf ''steam: could not unmarshal info response (%v)'' err)
                          | Inr res \<Rightarrow> Inr res)
                     in if isChallengeResponse Q data then
                          (case ChallengeResponse_unmarshalBinary Q data of
                             Inl err \<Rightarrow> (Inl err, s\<lparr>usock := Some u2\<rparr>)
                           | Inr challenge \<Rightarrow>
                               (case udp_send u2 (infoRequest_marshalBinary Q challenge) of
                                  (Some err, u3) \<Rightarrow> (Inl err, s\<lparr>usock := Some u3\<rparr>)
                                | (None, u3) \<Rightarrow>
                                    (case udp_receive u3 of
                                       (Inl err, u4) \<Rightarrow> (Inl err, s\<lparr>usock := Some u4\<rparr>)
                                     | (Inr data', u4) \<Rightarrow>
                                         (unmarshal data', s\<lparr>usock := Some u4\<rparr>))))
                        else (unmarshal data, s\<lparr>usock := Some u2\<rparr>)))))"

text \<open>\<open>Server.PlayersInfo\<close>.\<close>

definition PlayersInfo :: "('i, 'p) queryCodec \<Rightarrow> Server \<Rightarrow> (error + 'p) \<times> Server" where
  "PlayersInfo Q s =
     (case usock s of
        None \<Rightarrow> (Inl PanicNilPointer, s)
      | Some u \<Rightarrow>
          (case udp_send u (playersInfoRequest_marshalBinary Q 0) of
             (Some err, u1) \<Rightarrow> (Inl err, s\<lparr>usock := Some u1\<rparr>)
           | (None, u1) \<Rightarrow>
               (case udp_receive u1 of
                  (Inl err, u2) \<Rightarrow> (Inl err, s\<lparr>usock := Some u2\<rparr>)
                | (Inr data, u2) \<Rightarrow>
                    if isChallengeResponse Q data then
                      (case ChallengeResponse_unmarshalBinary Q data of
                         Inl err \<Rightarrow> (Inl err, s\<lparr>usock := Some u2\<rparr>)
                       | Inr challenge \<Rightarrow>
                           (case udp_send u2 (playersInfoRequest_marshalBinary Q challenge) of
                              (Some err, u3) \<Rightarrow> (Inl err, s\<lparr>usock := Some u3\<rparr>)
                            | (None, u3) \<Rightarrow>
                                (case udp_receive u3 of
                                   (Inl err, u4) \<Rightarrow> (Inl err, s\<lparr>usock := Some u4\<rparr>)
                                 | (Inr data', u4) \<Rightarrow>
                                     (PlayersInfoResponse_unmarshalBinary Q data',
                                      s\<lparr>usock := Some u4\<rparr>))))
                    else (PlayersInfoResponse_unmarshalBinary Q data, s\<lparr>usock := Some u2\<rparr>))))"

text \<open>
  The receive loop of \<open>Server.Send\<close>: \<open>rid\<close> and \<open>mid\<close> are \<open>req.id\<close> and \<open>reqMirror.id\<close>,
  \<open>buf\<close> the output collected so far. The result is \<open>None\<close> when the loop, or a receive
  in it, never ends.
\<close>

partial_function (option) Send_loop ::
  "conn \<Rightarrow> 32 word \<Rightarrow> 32 word \<Rightarrow> bool \<Rightarrow> byte list \<Rightarrow> ((error + string) \<times> conn) option"
where
  "Send_loop c rid mid sawMirror buf =
     (case receive c of
        None \<Rightarrow> None
      | Some (Inl err, c1) \<Rightarrow> Some (Inl (Errorf ''steam: receiving rcon response (%v)'' err), c1)
      | Some (Inr data, c1) \<Rightarrow>
          (case unmarshalBinary data of
             Inl err \<Rightarrow> Some (Inl (Errorf ''steam: decoding response (%v)'' err), c1)
           | Inr resp \<Rightarrow>
               if resp_typ resp \<noteq> rrtRespValue then Some (Inl ErrInvalidResponseType, c1)
               else if \<not> sawMirror \<and> resp_id resp = mid then Send_loop c1 rid mid True buf
               else if sawMirror then
                 (if resp_body resp = trailer then Some (Inr (string_of_bytes buf), c1)
                  else Some (Inl ErrInvalidResponseTrailer, c1))
               else if rid \<noteq> resp_id resp then Some (Inl ErrInvalidResponseID, c1)
               else Send_loop c1 rid mid sawMirror (buf @ resp_body resp)))"

text \<open>\<open>Server.Send\<close>.\<close>

definition Send :: "Server \<Rightarrow> string \<Rightarrow> ((error + string) \<times> Server) option" where
  "Send s cmd =
     (if \<not> rconInitialized s then Some (Inl ErrRCONNotInitialized, s)
      else
        (let (req, ctr1) = newRCONRequest rrtExecCmd cmd (rconRequestID s);
             s1 = s\<lparr>rconRequestID := ctr1\<rparr>
         in case rsock s of
              None \<Rightarrow> Some (Inl PanicNilPointer, s1)
            | Some c \<Rightarrow>
                (case rcon_send c (marshalBinary req) of
                   (Some err, c1) \<Rightarrow>
                     Some (Inl (Errorf ''steam: sending rcon request (%v)'' err), s1\<lparr>rsock := Some c1\<rparr>)
                 | (None, c1) \<Rightarrow>
                     (let (reqMirror, ctr2) = newRCONRequest rrtRespValue [] ctr1;
                          s2 = s1\<lparr>rconRequestID := ctr2\<rparr>
                      in case rcon_send c1 (marshalBinary reqMirror) of
                           (Some err, c2) \<Rightarrow>
                             Some (Inl (Errorf ''steam: sending rcon mirror request (%v)'' err),
                                   s2\<lparr>rsock := Some c2\<rparr>)
                         | (None, c2) \<Rightarrow>
                             (case Send_loop c2 (req_id req) (req_id reqMirror) False [] of
                                None \<Rightarrow> None
                              | Some (r, c3) \<Rightarrow> Some (r, s2\<lparr>rsock := Some c3\<rparr>))))))"

text \<open>
  What the peer delivers, read as frames: \<open>recv_frames c fs\<close> is the connection after
  \<open>length fs\<close> calls of \<open>receive\<close> when each of them returns data that decodes to the next
  frame of \<open>fs\<close>, and \<open>None\<close> otherwise.
\<close>

fun recv_frames :: "conn \<Rightarrow> rconResponse list \<Rightarrow> conn option" where
  "recv_frames c [] = Some c"
| "recv_frames c (f # fs) =
     (case receive c of
        Some (Inr data, c1) \<Rightarrow> (if unmarshalBinary data = Inr f then recv_frames c1 fs else None)
      | _ \<Rightarrow> None)"

section \<open>Vocabulary of the statements\<close>

text \<open>
  \<open>conn_of chunks e\<close> is a fresh connection to a peer that delivers \<open>chunks\<close> and then
  answers every read with \<open>e\<close>; no deadline and no write fails.
\<close>

definition conn_of :: "(byte list \<times> error option) list \<Rightarrow> error \<Rightarrow> conn" where
  "conn_of chunks e =
     \<lparr>incoming = chunks, idle = e, rdl_errs = [], wdl_errs = [], write_errs = [],
      written = [], closed = False\<rparr>"

text \<open>\<open>udp_of rs\<close> is a fresh query socket whose receives return \<open>rs\<close> in turn.\<close>

definition udp_of :: "(nat \<times> (error + byte list)) list \<Rightarrow> udpSocket" where
  "udp_of rs = \<lparr>u_sends = [], u_recvs = rs, u_now = 0, u_calls = [], u_closed = False\<rparr>"

text \<open>A dialer that opens the given two connections.\<close>

definition dial_to :: "udpSocket \<Rightarrow> conn \<Rightarrow> DialFn" where
  "dial_to u c = \<lparr>dial_udp = (\<lambda>_. Inr u), dial_tcp = (\<lambda>_. Inr c)\<rparr>"

text \<open>A server object with the given sockets and the given \<open>rconInitialized\<close>.\<close>

definition server_of :: "udpSocket option \<Rightarrow> conn option \<Rightarrow> bool \<Rightarrow> Server" where
  "server_of u c b =
     \<lparr>addr = ''203.0.113.5:27015'', dial = dial_to (udp_of []) (conn_of [] EOF),
      rconPassword = ''secret'', usock = u, udpInitialized = False, rsock = c,
      rconInitialized = b, rconRequestID = 0\<rparr>"

text \<open>
  The server object of \<open>Connect\<close> once \<open>init\<close> has opened the query socket \<open>u\<close>: dialer
  and password set, no RCON socket yet.
\<close>

definition opened_server :: "DialFn \<Rightarrow> string \<Rightarrow> string \<Rightarrow> udpSocket \<Rightarrow> 32 word \<Rightarrow> Server" where
  "opened_server d a pw u ctr =
     \<lparr>addr = a, dial = d, rconPassword = pw, usock = Some u, udpInitialized = False,
      rsock = None, rconInitialized = False, rconRequestID = ctr\<rparr>"

text \<open>A RESPONSE_VALUE frame.\<close>

definition value_frame :: "32 word \<Rightarrow> byte list \<Rightarrow> rconResponse" where
  "value_frame i b = \<lparr>resp_id = i, resp_typ = rrtRespValue, resp_body = b\<rparr>"

text \<open>The calls made so far on the query socket of a server.\<close>

definition calls_of :: "Server \<Rightarrow> udp_call list" where
  "calls_of s = (case usock s of None \<Rightarrow> [] | Some u \<Rightarrow> u_calls u)"

text \<open>What \<open>Info\<close> returns for the reply it parses: the decoder's error is wrapped.\<close>

definition info_result :: "('i, 'p) queryCodec \<Rightarrow> byte list \<Rightarrow> error + 'i" where
  "info_result Q d =
     (case InfoResponse_unmarshalBinary Q d of
        Inl err \<Rightarrow> Inl (Errorf ''steam: could not unmarshal info response (%v)'' err)
      | Inr res \<Rightarrow> Inr res)"

text \<open>No coming send of the query socket fails.\<close>

definition sends_succeed :: "udpSocket \<Rightarrow> bool" where
  "sends_succeed u = list_all (\<lambda>x. snd x = None) (u_sends u)"

text \<open>
  Modelled from the spec: a query codec for the examples (info.go, players.go and
  challenge.go are not among the sources). "Query requests: 4-byte prefix FF FF FF FF, then
  a 1-byte request-type tag, then the challenge value as little-endian int32"; "a reserved
  response-type byte distinguishes a challenge reply from a direct info/players reply". The
  tag bytes are those of the target protocol, to which the spec leaves them; the payload of
  an info or players reply is kept as bytes.
\<close>

definition a2s_codec :: "(byte list, byte list) queryCodec" where
  "a2s_codec =
     \<lparr>infoRequest_marshalBinary = (\<lambda>ch. requestPrefix @ [0x54] @ writeLong ch),
      playersInfoRequest_marshalBinary = (\<lambda>ch. requestPrefix @ [0x55] @ writeLong ch),
      isChallengeResponse = (\<lambda>d. 4 < length d \<and> d ! 4 = 0x41),
      ChallengeResponse_unmarshalBinary =
        (\<lambda>d. if length d < 9 then Inl errNotEnoughDataInResponse else Inr (le32 (drop 5 d))),
      InfoResponse_unmarshalBinary =
        (\<lambda>d. if 4 < length d \<and> d ! 4 = 0x49 then Inr (drop 5 d) else Inl errBadData),
      PlayersInfoResponse_unmarshalBinary =
        (\<lambda>d. if 4 < length d \<and> d ! 4 = 0x44 then Inr (drop 5 d) else Inl errBadData)\<rparr>"

section \<open>The codec: reading a null-terminated string\<close>

lemma ReadFull_buffer_1: "ReadFull buffer_Read (x # xs) (Suc 0) = Some (([x], None), xs)"
  by (simp add: ReadFull_def ReadAtLeast_loop.simps buffer_Read_def)

lemma readString_loop_buffer:
  "0 \<notin> set pre \<Longrightarrow>
   readString_loop buffer_Read (pre @ 0 # post) b0 buf = Some (Inr (string_of_bytes (buf @ pre)), post)"
proof (induction pre arbitrary: b0 buf)
  case Nil
  show ?case
    by (subst readString_loop.simps) (simp add: ReadFull_buffer_1)
next
  case (Cons x pre)
  then have x: "x \<noteq> 0" and pre: "0 \<notin> set pre" by auto
  show ?case
    by (subst readString_loop.simps) (simp add: ReadFull_buffer_1 x Cons.IH [OF pre])
qed

text \<open>
  C9. On a byte buffer that holds a zero byte, \<open>readString\<close> returns the bytes before the
  first zero byte as a string, consumes the zero byte without returning it, and leaves
  the bytes after it unread.
\<close>

theorem readString_first_zero:
  "0 \<notin> set pre \<Longrightarrow>
   readString buffer_Read (pre @ 0 # post) = Some (Inr (string_of_bytes pre), post)"
  by (simp add: readString_def readString_loop_buffer)

theorem readString_first_zero_witness:
  "(0::byte) \<notin> set [0x61, 0x62] \<and>
   readString buffer_Read ([0x61, 0x62] @ 0 # [0x63, 0, 0x64]) =
     Some (Inr (string_of_bytes [0x61, 0x62]), [0x63, 0, 0x64])"
  using readString_first_zero [of "[0x61, 0x62]" "[0x63, 0, 0x64]"]
  by simp

section \<open>The RCON socket: receive\<close>

lemma receive_loop_silent_aux:
  assumes "receive_loop c tot buf = Some y"
  shows "\<not> (incoming c = [] \<and> idle c \<noteq> EOF \<and> rdl_errs c = [] \<and> 0 < tot)"
proof (rule receive_loop.raw_induct
    [where P = "\<lambda>c tot buf y. \<not> (incoming c = [] \<and> idle c \<noteq> EOF \<and> rdl_errs c = [] \<and> 0 < tot)",
      OF _ assms], goal_cases)
  case (1 rl c tot buf y)
  show ?case
  proof
    assume h: "incoming c = [] \<and> idle c \<noteq> EOF \<and> rdl_errs c = [] \<and> 0 < tot"
    then have "rl c tot buf = Some y"
      using 1(2) by (simp add: conn_SetReadDeadline_def conn_Read_def)
    with 1(1) h show False by blast
  qed
qed

lemma receive_loop_silent:
  "incoming c = [] \<Longrightarrow> idle c \<noteq> EOF \<Longrightarrow> rdl_errs c = [] \<Longrightarrow> 0 < tot \<Longrightarrow> receive_loop c tot buf = None"
  using receive_loop_silent_aux [of c tot buf] by (cases "receive_loop c tot buf") auto

lemmas prefix_eval = readLong_def ReadFull_def ReadAtLeast_loop.simps TeeReader_Read_def
  conn_Read_def le32_def

lemma readLong_example:
  "readLong (TeeReader_Read conn_Read) (conn_of [([10,0,0,0], None)] ErrTimeout, []) = 
   Some (Inr 10, (conn_of [] ErrTimeout, [10,0,0,0]))"
  by (simp add: prefix_eval conn_of_def)

text \<open>
  C1. A peer that sends the length prefix 10 and then nothing, so that every later read
  ends with a timeout and no bytes: \<open>receive\<close> does not return the timeout error, it
  never returns. The loop leaves on \<open>io.EOF\<close> only.
\<close>

theorem receive_silent_peer_never_returns:
  "receive (conn_of [([10, 0, 0, 0], None)] ErrTimeout) = None"
proof -
  have "receive_loop (conn_of [] ErrTimeout) 10 [10, 0, 0, 0] = None"
    by (rule receive_loop_silent) (simp_all add: conn_of_def)
  then show ?thesis
    by (simp add: receive_def readLong_example)
qed

lemma receive_loop_short_eof:
  "incoming c = xs \<Longrightarrow> idle c = EOF \<Longrightarrow> rdl_errs c = [] \<Longrightarrow>
   int (sum_list (map (\<lambda>x. length (fst x)) xs)) < tot \<Longrightarrow>
   \<exists>c'. receive_loop c tot buf = Some (Inl (Errorf ''steam: could not receive data (%v)'' EOF), c')"
proof (induction xs arbitrary: c tot buf)
  case Nil
  then show ?case
    by (subst receive_loop.simps) (simp add: conn_SetReadDeadline_def conn_Read_def)
next
  case (Cons x xs)
  obtain bs e where x: "x = (bs, e)" by (cases x)
  let ?c2 = "c\<lparr>incoming := xs\<rparr>"
  have len: "int (length bs) + int (sum_list (map (\<lambda>x. length (fst x)) xs)) < tot"
    using Cons.prems(4) x by simp
  then have pos: "0 < tot" and k: "\<not> nat tot < length bs" by linarith+
  have rd: "conn_Read c (nat tot) = ((bs, e), ?c2)"
    using Cons.prems(1) x k by (simp add: conn_Read_def)
  have dl: "conn_SetReadDeadline c = (None, c)"
    using Cons.prems(3) by (simp add: conn_SetReadDeadline_def)
  show ?case
  proof (cases "e = Some EOF")
    case True
    then show ?thesis
      by (subst receive_loop.simps) (simp add: pos dl rd Let_def)
  next
    case False
    have c2: "incoming ?c2 = xs" "idle ?c2 = EOF" "rdl_errs ?c2 = []"
      using Cons.prems by simp_all
    have t': "int (sum_list (map (\<lambda>x. length (fst x)) xs)) < (if 0 < length bs then tot - int (length bs) else tot)"
      using len by auto
    from Cons.IH [OF c2 t']
    show ?thesis
      by (subst receive_loop.simps) (simp add: pos dl rd Let_def False)
  qed
qed

text \<open>
  C4, as amended. Once the length prefix has been read, a peer that delivers fewer payload
  bytes than the prefix declares and then closes the stream makes \<open>receive\<close> fail with
  the error \<open>fmt.Errorf("steam: could not receive data (%v)", io.EOF)\<close>.
\<close>

theorem receive_eof_before_length:
  assumes "readLong (TeeReader_Read conn_Read) (c, []) = Some (Inr v, (c1, buf))"
    and "idle c1 = EOF" and "rdl_errs c1 = []"
    and "int (sum_list (map (\<lambda>x. length (fst x)) (incoming c1))) < sint v"
  shows "\<exists>c'. receive c = Some (Inl (Errorf ''steam: could not receive data (%v)'' EOF), c')"
  using receive_loop_short_eof [OF refl assms(2,3,4), of buf] assms(1)
  by (simp add: receive_def)

theorem receive_eof_before_length_witness:
  "\<exists>c'. receive (conn_of [([3, 0, 0, 0], None), ([7], Some ErrTimeout)] EOF) =
     Some (Inl (Errorf ''steam: could not receive data (%v)'' EOF), c')"
  by (rule receive_eof_before_length
      [of _ 3 "conn_of [([7], Some ErrTimeout)] EOF" "[3, 0, 0, 0]"])
    (simp_all add: prefix_eval conn_of_def)

text \<open>
  C4 as stated fails: after the prefix 10 and three payload bytes the stream ends, and the
  error is not \<open>errNotEnoughDataInResponse\<close>.
\<close>

theorem receive_eof_not_parse_error:
  "map_option fst (receive (conn_of [([10, 0, 0, 0, 1, 2, 3], None)] EOF)) =
     Some (Inl (Errorf ''steam: could not receive data (%v)'' EOF)) \<and>
   map_option fst (receive (conn_of [([10, 0, 0, 0, 1, 2, 3], None)] EOF)) \<noteq>
     Some (Inl errNotEnoughDataInResponse)"
  by (simp add: receive_def prefix_eval conn_of_def receive_loop.simps conn_SetReadDeadline_def)

lemmas frame_eval = receive_def prefix_eval receive_loop.simps conn_SetReadDeadline_def
  unmarshalBinary_def

section \<open>Send\<close>

text \<open>
  C7. A \<open>Send\<close> on a server whose \<open>rconInitialized\<close> is false returns
  \<open>ErrRCONNotInitialized\<close> and leaves the server as it was: nothing is written to or read
  from either socket.
\<close>

theorem Send_not_initialized:
  "\<not> rconInitialized s \<Longrightarrow> Send s cmd = Some (Inl ErrRCONNotInitialized, s)"
  by (simp add: Send_def)

theorem Send_not_initialized_witness:
  "\<not> rconInitialized (server_of (Some (udp_of [])) (Some (conn_of [] ErrTimeout)) False) \<and>
   Send (server_of (Some (udp_of [])) (Some (conn_of [] ErrTimeout)) False) ''status'' =
     Some (Inl ErrRCONNotInitialized, server_of (Some (udp_of [])) (Some (conn_of [] ErrTimeout)) False)"
  using Send_not_initialized [of "server_of (Some (udp_of [])) (Some (conn_of [] ErrTimeout)) False" "''status''"]
  by (simp add: server_of_def)

lemma rcon_send_ok:
  "wdl_errs c = [] \<Longrightarrow> write_errs c = [] \<Longrightarrow>
   rcon_send c p = (None, c\<lparr>written := written c @ [p]\<rparr>)"
  by (simp add: rcon_send_def conn_SetWriteDeadline_def conn_Write_def)

lemma recv_frames_append:
  "recv_frames c (xs @ ys) = (case recv_frames c xs of None \<Rightarrow> None | Some c' \<Rightarrow> recv_frames c' ys)"
  by (induction xs arbitrary: c) (auto split: option.splits sum.splits prod.splits)

lemma recv_frames_Cons:
  "recv_frames c (f # fs) = Some c' \<Longrightarrow>
   \<exists>data c1. receive c = Some (Inr data, c1) \<and> unmarshalBinary data = Inr f \<and> recv_frames c1 fs = Some c'"
  by (auto split: option.splits sum.splits prod.splits if_splits)

lemma Send_loop_fragments:
  "recv_frames c (map (value_frame rid) bodies) = Some c' \<Longrightarrow> rid \<noteq> mid \<Longrightarrow>
   Send_loop c rid mid False buf = Send_loop c' rid mid False (buf @ concat bodies)"
proof (induction bodies arbitrary: c buf)
  case Nil
  then show ?case by simp
next
  case (Cons b bodies)
  from Cons.prems(1) obtain data c1 where
    r: "receive c = Some (Inr data, c1)" and u: "unmarshalBinary data = Inr (value_frame rid b)"
    and rest: "recv_frames c1 (map (value_frame rid) bodies) = Some c'"
    using recv_frames_Cons [of c "value_frame rid b" "map (value_frame rid) bodies" c'] by auto
  have "Send_loop c rid mid False buf = Send_loop c1 rid mid False (buf @ b)"
    by (subst Send_loop.simps) (simp add: r u value_frame_def Cons.prems(2))
  also have "\<dots> = Send_loop c' rid mid False ((buf @ b) @ concat bodies)"
    by (rule Cons.IH [OF rest Cons.prems(2)])
  finally show ?case by simp
qed

lemma Send_loop_mirror:
  assumes "recv_frames c [value_frame mid mb] = Some c'"
  shows "Send_loop c rid mid False buf = Send_loop c' rid mid True buf"
proof -
  from recv_frames_Cons [OF assms] obtain data where
    r: "receive c = Some (Inr data, c')" and u: "unmarshalBinary data = Inr (value_frame mid mb)"
    by auto
  show ?thesis
    by (subst Send_loop.simps) (simp add: r u value_frame_def)
qed

lemma Send_loop_after_mirror:
  assumes "recv_frames c [f] = Some c'" and "resp_typ f = rrtRespValue"
  shows "Send_loop c rid mid True buf =
     Some (if resp_body f = trailer then Inr (string_of_bytes buf) else Inl ErrInvalidResponseTrailer, c')"
proof -
  from recv_frames_Cons [OF assms(1)] obtain data where
    r: "receive c = Some (Inr data, c')" and u: "unmarshalBinary data = Inr f"
    by auto
  show ?thesis
    by (subst Send_loop.simps) (simp add: r u assms(2))
qed

lemma Send_loop_exchange:
  assumes "recv_frames c (map (value_frame rid) bodies @ [value_frame mid mb, f]) = Some c'"
    and "rid \<noteq> mid" and "resp_typ f = rrtRespValue"
  shows "Send_loop c rid mid False [] =
     Some (if resp_body f = trailer then Inr (string_of_bytes (concat bodies))
           else Inl ErrInvalidResponseTrailer, c')"
proof -
  from assms(1) obtain c1 where
    a: "recv_frames c (map (value_frame rid) bodies) = Some c1"
    and b: "recv_frames c1 ([value_frame mid mb] @ [f]) = Some c'"
    by (auto simp: recv_frames_append split: option.splits)
  from b obtain c2 where
    m: "recv_frames c1 [value_frame mid mb] = Some c2" and t: "recv_frames c2 [f] = Some c'"
    unfolding recv_frames_append by (auto split: option.splits)
  show ?thesis
    using Send_loop_fragments [OF a assms(2), of "[]"] Send_loop_mirror [OF m, of rid "concat bodies"]
      Send_loop_after_mirror [OF t assms(3), of rid mid "concat bodies"]
    by simp
qed

lemma newRCONRequest_fresh:
  "newRCONRequest t b ctr = (req, ctr1) \<Longrightarrow> newRCONRequest t' b' ctr1 = (req', ctr2) \<Longrightarrow>
   req_id req \<noteq> req_id req'"
  by (auto simp: newRCONRequest_def)

lemma Send_unfold:
  assumes "rconInitialized s" and "rsock s = Some c" and "wdl_errs c = []" and "write_errs c = []"
    and "newRCONRequest rrtExecCmd cmd (rconRequestID s) = (req, ctr1)"
    and "newRCONRequest rrtRespValue [] ctr1 = (reqMirror, ctr2)"
  shows "Send s cmd =
     (case Send_loop (c\<lparr>written := written c @ [marshalBinary req, marshalBinary reqMirror]\<rparr>)
             (req_id req) (req_id reqMirror) False [] of
        None \<Rightarrow> None
      | Some (r, c3) \<Rightarrow> Some (r, s\<lparr>rconRequestID := ctr2, rsock := Some c3\<rparr>))"
  using assms by (simp add: Send_def rcon_send_ok split: option.splits)

lemma Send_exchange:
  assumes "rconInitialized s" and "rsock s = Some c" and "wdl_errs c = []" and "write_errs c = []"
    and "newRCONRequest rrtExecCmd cmd (rconRequestID s) = (req, ctr1)"
    and "newRCONRequest rrtRespValue [] ctr1 = (reqMirror, ctr2)"
    and "recv_frames (c\<lparr>written := written c @ [marshalBinary req, marshalBinary reqMirror]\<rparr>)
           (map (value_frame (req_id req)) bodies @ [value_frame (req_id reqMirror) mb, f])
         = Some c'"
    and "resp_typ f = rrtRespValue"
  shows "Send s cmd =
     Some (if resp_body f = trailer then Inr (string_of_bytes (concat bodies))
           else Inl ErrInvalidResponseTrailer,
           s\<lparr>rconRequestID := ctr2, rsock := Some c'\<rparr>)"
  by (simp only: Send_unfold [OF assms(1-6)]
      Send_loop_exchange [OF assms(7) newRCONRequest_fresh [OF assms(5,6)] assms(8)]
      option.case prod.case)

lemma replicate_6: "replicate 6 x = [x, x, x, x, x, x]"
  by (simp add: eval_nat_numeral)

lemma string_of_bytes_inj: "string_of_bytes xs = string_of_bytes ys \<Longrightarrow> xs = ys"
proof -
  have "inj (\<lambda>b::byte. (char_of (unat b) :: char))"
  proof (rule injI)
    fix x y :: byte assume "(char_of (unat x) :: char) = char_of (unat y)"
    then have "(of_char (char_of (unat x) :: char) :: nat) = of_char (char_of (unat y) :: char)" by simp
    then have "unat x mod 256 = unat y mod 256" by (simp add: of_char_of)
    moreover have "unat x < 256" "unat y < 256" using unsigned_less [of x, where 'a = nat] unsigned_less [of y, where 'a = nat] by simp_all
    ultimately show "x = y" by (simp add: word_unat_eq_iff)
  qed
  then show "string_of_bytes xs = string_of_bytes ys \<Longrightarrow> xs = ys"
    unfolding string_of_bytes_def by (simp add: inj_map_eq_map)
qed

text \<open>
  C2. The command request has id 1 and the mirror request id 2. The server replies with one
  RESPONSE_VALUE frame of id 1 and body "ab", then a RESPONSE_VALUE frame of id 2, then a
  RESPONSE_VALUE frame whose body is the trailer; the first frame reaches the client in two
  reads, of 10 and of 6 bytes. \<open>Send\<close> does not return "ab": \<open>receive\<close> writes its whole
  buffer \<open>b\<close> after a short read, so that the frame is decoded with the body 00 00, which
  is what \<open>Send\<close> returns.
\<close>

theorem Send_split_fragment:
  "map_option fst
     (Send (server_of None
              (Some (conn_of
                 [([12,0,0,0, 1,0,0,0, 0,0], None),
                  ([0,0, 0x61,0x62, 0,0], None),
                  ([10,0,0,0, 2,0,0,0, 0,0,0,0, 0,0], None),
                  ([14,0,0,0, 0,0,0,0, 0,0,0,0, 0,1,0,0, 0,0], None)] ErrTimeout)) True)
        ''status'') =
   Some (Inr (string_of_bytes [0, 0]))"
  by (simp add: Send_def newRCONRequest_def server_of_def rcon_send_def conn_SetWriteDeadline_def
      conn_Write_def Send_loop.simps frame_eval conn_of_def trailer_def replicate_6)

theorem Send_split_fragment_witness:
  "map_option fst
     (Send (server_of None
              (Some (conn_of
                 [([12,0,0,0, 1,0,0,0, 0,0], None),
                  ([0,0, 0x61,0x62, 0,0], None),
                  ([10,0,0,0, 2,0,0,0, 0,0,0,0, 0,0], None),
                  ([14,0,0,0, 0,0,0,0, 0,0,0,0, 0,1,0,0, 0,0], None)] ErrTimeout)) True)
        ''status'') \<noteq>
   Some (Inr (string_of_bytes (concat [[0x61, 0x62]])))"
  unfolding Send_split_fragment using string_of_bytes_inj [of "[0, 0]" "[0x61, 0x62]"] by auto

text \<open>
  C6. Once the mirror frame has been seen, a RESPONSE_VALUE frame whose body differs from
  the trailer makes \<open>Send\<close> fail with \<open>ErrInvalidResponseTrailer\<close>; the output collected
  from the fragments is not returned.
\<close>

theorem Send_trailer_mismatch:
  assumes "rconInitialized s" and "rsock s = Some c" and "wdl_errs c = []" and "write_errs c = []"
    and "newRCONRequest rrtExecCmd cmd (rconRequestID s) = (req, ctr1)"
    and "newRCONRequest rrtRespValue [] ctr1 = (reqMirror, ctr2)"
    and "recv_frames (c\<lparr>written := written c @ [marshalBinary req, marshalBinary reqMirror]\<rparr>)
           (map (value_frame (req_id req)) bodies @ [value_frame (req_id reqMirror) mb, f])
         = Some c'"
    and "resp_typ f = rrtRespValue" and "resp_body f \<noteq> trailer"
  shows "Send s cmd =
     Some (Inl ErrInvalidResponseTrailer, s\<lparr>rconRequestID := ctr2, rsock := Some c'\<rparr>)"
  using Send_exchange [OF assms(1-8)] assms(9)
  by simp

theorem Send_trailer_mismatch_witness:
  "Send (server_of None
           (Some (conn_of
              [([12,0,0,0, 1,0,0,0, 0,0,0,0, 0x61,0x62, 0,0], None),
               ([10,0,0,0, 2,0,0,0, 0,0,0,0, 0,0], None),
               ([14,0,0,0, 1,0,0,0, 0,0,0,0, 0,1,0,1, 0,0], None)] ErrTimeout)) True)
        ''status'' =
   Some (Inl ErrInvalidResponseTrailer,
         server_of None
           (Some ((conn_of [] ErrTimeout)
              \<lparr>written :=
                 [marshalBinary \<lparr>req_id = 1, req_typ = rrtExecCmd, req_body = ''status''\<rparr>,
                  marshalBinary \<lparr>req_id = 2, req_typ = rrtRespValue, req_body = []\<rparr>]\<rparr>)) True
           \<lparr>rconRequestID := 2\<rparr>)"
  using Send_trailer_mismatch
    [of "server_of None
           (Some (conn_of
              [([12,0,0,0, 1,0,0,0, 0,0,0,0, 0x61,0x62, 0,0], None),
               ([10,0,0,0, 2,0,0,0, 0,0,0,0, 0,0], None),
               ([14,0,0,0, 1,0,0,0, 0,0,0,0, 0,1,0,1, 0,0], None)] ErrTimeout)) True"
        "conn_of
              [([12,0,0,0, 1,0,0,0, 0,0,0,0, 0x61,0x62, 0,0], None),
               ([10,0,0,0, 2,0,0,0, 0,0,0,0, 0,0], None),
               ([14,0,0,0, 1,0,0,0, 0,0,0,0, 0,1,0,1, 0,0], None)] ErrTimeout"
        "''status''"
        "\<lparr>req_id = 1, req_typ = rrtExecCmd, req_body = ''status''\<rparr>" 1
        "\<lparr>req_id = 2, req_typ = rrtRespValue, req_body = []\<rparr>" 2
        "[[0x61, 0x62]]" "[]" "value_frame 1 [0, 1, 0, 1]"
        "(conn_of [] ErrTimeout)
              \<lparr>written :=
                 [marshalBinary \<lparr>req_id = 1, req_typ = rrtExecCmd, req_body = ''status''\<rparr>,
                  marshalBinary \<lparr>req_id = 2, req_typ = rrtRespValue, req_body = []\<rparr>]\<rparr>"]
  by (simp add: server_of_def conn_of_def newRCONRequest_def frame_eval value_frame_def trailer_def)

section \<open>Authenticate\<close>

text \<open>
  C3. The first reply to the AUTH request (id 1) carries the right id and the type
  AUTH_RESPONSE instead of RESPONSE_VALUE: \<open>authenticate\<close> returns \<open>ErrInvalidResponseID\<close>,
  not \<open>ErrInvalidResponseType\<close>.
\<close>

theorem authenticate_wrong_type:
  "map_option fst
     (authenticate (server_of None
        (Some (conn_of [([10,0,0,0, 1,0,0,0, 2,0,0,0, 0,0], None)] ErrTimeout)) False)) =
   Some (Some ErrInvalidResponseID)"
  by (simp add: authenticate_def newRCONRequest_def server_of_def rcon_send_def
      conn_SetWriteDeadline_def conn_Write_def frame_eval conn_of_def)

theorem authenticate_wrong_type_witness:
  "map_option fst
     (authenticate (server_of None
        (Some (conn_of [([10,0,0,0, 1,0,0,0, 2,0,0,0, 0,0], None)] ErrTimeout)) False)) \<noteq>
   Some (Some ErrInvalidResponseType)"
  unfolding authenticate_wrong_type by simp

section \<open>Connect\<close>

lemma authenticate_frame:
  assumes "authenticate s = Some (r, s2)" and "rsock s = Some c"
  shows "usock s2 = usock s \<and> rconInitialized s2 = rconInitialized s \<and> (\<exists>c2. rsock s2 = Some c2)"
  using assms
  by (auto simp: authenticate_def newRCONRequest_def Let_def
      split: if_splits sum.splits option.splits prod.splits)

lemma Connect_opened:
  assumes "os = Some opt # os1"
    and "d = (case Dial opt of None \<Rightarrow> net_Dial | Some d' \<Rightarrow> d')"
    and "a \<noteq> []" and "RCONPassword opt \<noteq> []" and "dial_udp d a = Inr u"
  shows "Connect net_Dial ctr a os =
     (case initRCON (opened_server d a (RCONPassword opt) u ctr) of
        None \<Rightarrow> None
      | Some (Some err, s2) \<Rightarrow> Some (Some err, s2\<lparr>usock := map_option udp_close (usock s2)\<rparr>)
      | Some (None, s2) \<Rightarrow> Some (None, s2))"
  using assms
  by (simp add: Connect_def Server_init_def newUDPSocket_def opened_server_def)

text \<open>
  C8. \<open>Connect\<close> with a password, once the query socket \<open>u\<close> is open: when opening the
  RCON socket fails, \<open>Connect\<close> returns that error, wrapped, and has closed the query
  socket; when \<open>authenticate\<close> returns an error, \<open>Connect\<close> returns it, wrapped, and has
  closed the query socket and the RCON socket, and the server is not RCON-capable.
\<close>

theorem Connect_failure_closes:
  assumes "os = Some opt # os1"
    and "d = (case Dial opt of None \<Rightarrow> net_Dial | Some d' \<Rightarrow> d')"
    and "a \<noteq> []" and "RCONPassword opt \<noteq> []" and "dial_udp d a = Inr u"
  shows "(dial_tcp d a = Inl e \<longrightarrow>
            Connect net_Dial ctr a os =
              Some (Some (Errorf ''steam: could not open tcp socket (%v)'' e),
                    (opened_server d a (RCONPassword opt) u ctr)\<lparr>usock := Some (udp_close u)\<rparr>)) \<and>
         (dial_tcp d a = Inr c \<and>
          authenticate ((opened_server d a (RCONPassword opt) u ctr)\<lparr>rsock := Some c\<rparr>) =
            Some (Some e, s2) \<longrightarrow>
            (\<exists>s' c2. Connect net_Dial ctr a os =
                 Some (Some (Errorf ''steam: could not authenticate (%v)'' e), s') \<and>
               usock s' = Some (udp_close u) \<and> u_closed (udp_close u) \<and>
               rsock s' = Some (rcon_close c2) \<and> closed (rcon_close c2) \<and>
               \<not> rconInitialized s'))"
proof (intro conjI impI)
  assume "dial_tcp d a = Inl e"
  then show "Connect net_Dial ctr a os =
              Some (Some (Errorf ''steam: could not open tcp socket (%v)'' e),
                    (opened_server d a (RCONPassword opt) u ctr)\<lparr>usock := Some (udp_close u)\<rparr>)"
    using assms(3)
    by (simp add: Connect_opened [OF assms] initRCON_def newRCONSocket_def opened_server_def)
next
  assume h: "dial_tcp d a = Inr c \<and>
          authenticate ((opened_server d a (RCONPassword opt) u ctr)\<lparr>rsock := Some c\<rparr>) =
            Some (Some e, s2)"
  let ?s = "(opened_server d a (RCONPassword opt) u ctr)\<lparr>rsock := Some c\<rparr>"
  from h have au: "authenticate ?s = Some (Some e, s2)" by simp
  from authenticate_frame [OF au] obtain c2 where
    f: "usock s2 = Some u" "\<not> rconInitialized s2" "rsock s2 = Some c2"
    by (auto simp: opened_server_def)
  have i: "initRCON (opened_server d a (RCONPassword opt) u ctr) =
      Some (Some (Errorf ''steam: could not authenticate (%v)'' e),
            s2\<lparr>rsock := map_option rcon_close (rsock s2)\<rparr>)"
    using h assms(3) au
    by (simp add: initRCON_def newRCONSocket_def opened_server_def)
  have "Connect net_Dial ctr a os =
      Some (Some (Errorf ''steam: could not authenticate (%v)'' e),
            s2\<lparr>rsock := Some (rcon_close c2), usock := Some (udp_close u)\<rparr>)"
    by (simp add: Connect_opened [OF assms] i f)
  then show "\<exists>s' c2. Connect net_Dial ctr a os =
                 Some (Some (Errorf ''steam: could not authenticate (%v)'' e), s') \<and>
               usock s' = Some (udp_close u) \<and> u_closed (udp_close u) \<and>
               rsock s' = Some (rcon_close c2) \<and> closed (rcon_close c2) \<and>
               \<not> rconInitialized s'"
    using f by (auto simp: udp_close_def rcon_close_def conn_Close_def)
qed

theorem Connect_failure_closes_witness:
  "Connect (dial_to (udp_of []) (conn_of [] EOF)) 0 ''203.0.113.5:27015''
     [Some \<lparr>Dial = Some \<lparr>dial_udp = (\<lambda>_. Inr (udp_of [])),
                           dial_tcp = (\<lambda>_. Inl (ErrNet ''connection refused''))\<rparr>,
             RCONPassword = ''secret''\<rparr>] =
     Some (Some (Errorf ''steam: could not open tcp socket (%v)'' (ErrNet ''connection refused'')),
           (opened_server \<lparr>dial_udp = (\<lambda>_. Inr (udp_of [])),
                           dial_tcp = (\<lambda>_. Inl (ErrNet ''connection refused''))\<rparr>
              ''203.0.113.5:27015'' ''secret'' (udp_of []) 0)\<lparr>usock := Some (udp_close (udp_of []))\<rparr>) \<and>
   (\<exists>s' c2.
     Connect (dial_to (udp_of []) (conn_of [] EOF)) 0 ''203.0.113.5:27015''
       [Some \<lparr>Dial = Some (dial_to (udp_of [])
                 (conn_of [([10,0,0,0, 1,0,0,0, 0,0,0,0, 0,0], None),
                           ([10,0,0,0, 255,255,255,255, 2,0,0,0, 0,0], None)] ErrTimeout)),
               RCONPassword = ''wrong''\<rparr>] =
       Some (Some (Errorf ''steam: could not authenticate (%v)'' ErrRCONAuthFailed), s') \<and>
     usock s' = Some (udp_close (udp_of [])) \<and> u_closed (udp_close (udp_of [])) \<and>
     rsock s' = Some (rcon_close c2) \<and> closed (rcon_close c2) \<and> \<not> rconInitialized s')"
proof -
  let ?d = "dial_to (udp_of [])
                 (conn_of [([10,0,0,0, 1,0,0,0, 0,0,0,0, 0,0], None),
                           ([10,0,0,0, 255,255,255,255, 2,0,0,0, 0,0], None)] ErrTimeout)"
  let ?c = "conn_of [([10,0,0,0, 1,0,0,0, 0,0,0,0, 0,0], None),
                           ([10,0,0,0, 255,255,255,255, 2,0,0,0, 0,0], None)] ErrTimeout"
  have "\<exists>s2. authenticate
          ((opened_server ?d ''203.0.113.5:27015'' ''wrong'' (udp_of []) 0)\<lparr>rsock := Some ?c\<rparr>) =
        Some (Some ErrRCONAuthFailed, s2)"
    by (simp add: authenticate_def newRCONRequest_def rcon_send_def conn_SetWriteDeadline_def
        conn_Write_def opened_server_def conn_of_def frame_eval)
  then obtain s2 where au: "authenticate
          ((opened_server ?d ''203.0.113.5:27015'' ''wrong'' (udp_of []) 0)\<lparr>rsock := Some ?c\<rparr>) =
        Some (Some ErrRCONAuthFailed, s2)" by blast
  note a = Connect_failure_closes
    [of "[Some \<lparr>Dial = Some \<lparr>dial_udp = (\<lambda>_. Inr (udp_of [])),
                           dial_tcp = (\<lambda>_. Inl (ErrNet ''connection refused''))\<rparr>,
             RCONPassword = ''secret''\<rparr>]"
        "\<lparr>Dial = Some \<lparr>dial_udp = (\<lambda>_. Inr (udp_of [])),
                           dial_tcp = (\<lambda>_. Inl (ErrNet ''connection refused''))\<rparr>,
             RCONPassword = ''secret''\<rparr>" "[]"
        "\<lparr>dial_udp = (\<lambda>_. Inr (udp_of [])),
                           dial_tcp = (\<lambda>_. Inl (ErrNet ''connection refused''))\<rparr>"
        "dial_to (udp_of []) (conn_of [] EOF)" "''203.0.113.5:27015''" "udp_of []"
        "ErrNet ''connection refused''" 0]
  note b = Connect_failure_closes
    [of "[Some \<lparr>Dial = Some ?d, RCONPassword = ''wrong''\<rparr>]"
        "\<lparr>Dial = Some ?d, RCONPassword = ''wrong''\<rparr>" "[]" ?d
        "dial_to (udp_of []) (conn_of [] EOF)" "''203.0.113.5:27015''" "udp_of []"
        ErrRCONAuthFailed 0 ?c s2]
  from a have A: "Connect (dial_to (udp_of []) (conn_of [] EOF)) 0 ''203.0.113.5:27015''
     [Some \<lparr>Dial = Some \<lparr>dial_udp = (\<lambda>_. Inr (udp_of [])),
                           dial_tcp = (\<lambda>_. Inl (ErrNet ''connection refused''))\<rparr>,
             RCONPassword = ''secret''\<rparr>] =
     Some (Some (Errorf ''steam: could not open tcp socket (%v)'' (ErrNet ''connection refused'')),
           (opened_server \<lparr>dial_udp = (\<lambda>_. Inr (udp_of [])),
                           dial_tcp = (\<lambda>_. Inl (ErrNet ''connection refused''))\<rparr>
              ''203.0.113.5:27015'' ''secret'' (udp_of []) 0)\<lparr>usock := Some (udp_close (udp_of []))\<rparr>)"
    by simp
  from b au have B: "\<exists>s' c2.
     Connect (dial_to (udp_of []) (conn_of [] EOF)) 0 ''203.0.113.5:27015''
       [Some \<lparr>Dial = Some ?d, RCONPassword = ''wrong''\<rparr>] =
       Some (Some (Errorf ''steam: could not authenticate (%v)'' ErrRCONAuthFailed), s') \<and>
     usock s' = Some (udp_close (udp_of [])) \<and> u_closed (udp_close (udp_of [])) \<and>
     rsock s' = Some (rcon_close c2) \<and> closed (rcon_close c2) \<and> \<not> rconInitialized s'"
    by (simp add: dial_to_def)
  from A B show ?thesis by blast
qed

section \<open>Info and PlayersInfo\<close>

lemma udp_send_ok:
  assumes "sends_succeed u"
  obtains u' where "udp_send u p = (None, u')" and "u_recvs u' = u_recvs u"
    and "u_calls u' = u_calls u @ [USend p]" and "sends_succeed u'"
  using assms
  by (cases "u_sends u") (auto simp: udp_send_def sends_succeed_def)

lemma udp_receive_next:
  assumes "u_recvs u = (d, r) # rest"
  obtains u' where "udp_receive u = (r, u')" and "u_recvs u' = rest"
    and "u_calls u' = u_calls u @ [UReceive]" and "sends_succeed u' = sends_succeed u"
  using assms by (auto simp: udp_receive_def sends_succeed_def)

lemma Info_direct:
  assumes "usock s = Some u" and "sends_succeed u" and "u_recvs u = (d1, Inr data) # rest"
    and "\<not> isChallengeResponse Q data"
  shows "fst (Info Q s) = info_result Q data \<and>
         calls_of (snd (Info Q s)) = u_calls u @ [USend (infoRequest_marshalBinary Q 0), UReceive]"
proof -
  from udp_send_ok [OF assms(2), of "infoRequest_marshalBinary Q 0"] obtain u1 where
    s1: "udp_send u (infoRequest_marshalBinary Q 0) = (None, u1)" and r1: "u_recvs u1 = u_recvs u"
    and c1: "u_calls u1 = u_calls u @ [USend (infoRequest_marshalBinary Q 0)]" by blast
  from udp_receive_next [of u1 d1 "Inr data" rest] r1 assms(3) obtain u2 where
    s2: "udp_receive u1 = (Inr data, u2)" and c2: "u_calls u2 = u_calls u1 @ [UReceive]" by auto
  show ?thesis
    using assms(1,4) s1 s2 c1 c2 by (simp add: Info_def info_result_def calls_of_def)
qed

lemma Info_challenged:
  assumes "usock s = Some u" and "sends_succeed u"
    and "u_recvs u = (d1, Inr data) # (d2, Inr data') # rest"
    and "isChallengeResponse Q data" and "ChallengeResponse_unmarshalBinary Q data = Inr ch"
  shows "fst (Info Q s) = info_result Q data' \<and>
         calls_of (snd (Info Q s)) =
           u_calls u @ [USend (infoRequest_marshalBinary Q 0), UReceive,
                        USend (infoRequest_marshalBinary Q ch), UReceive]"
proof -
  from udp_send_ok [OF assms(2), of "infoRequest_marshalBinary Q 0"] obtain u1 where
    s1: "udp_send u (infoRequest_marshalBinary Q 0) = (None, u1)" and r1: "u_recvs u1 = u_recvs u"
    and c1: "u_calls u1 = u_calls u @ [USend (infoRequest_marshalBinary Q 0)]"
    and k1: "sends_succeed u1" by blast
  from udp_receive_next [of u1 d1 "Inr data" "(d2, Inr data') # rest"] r1 assms(3) obtain u2 where
    s2: "udp_receive u1 = (Inr data, u2)" and r2: "u_recvs u2 = (d2, Inr data') # rest"
    and c2: "u_calls u2 = u_calls u1 @ [UReceive]" and k2: "sends_succeed u2"
    using k1 by auto
  from udp_send_ok [OF k2, of "infoRequest_marshalBinary Q ch"] obtain u3 where
    s3: "udp_send u2 (infoRequest_marshalBinary Q ch) = (None, u3)" and r3: "u_recvs u3 = u_recvs u2"
    and c3: "u_calls u3 = u_calls u2 @ [USend (infoRequest_marshalBinary Q ch)]" by blast
  from udp_receive_next [of u3 d2 "Inr data'" rest] r3 r2 obtain u4 where
    s4: "udp_receive u3 = (Inr data', u4)" and c4: "u_calls u4 = u_calls u3 @ [UReceive]" by auto
  show ?thesis
    using assms(1,4,5) s1 s2 s3 s4 c1 c2 c3 c4 by (simp add: Info_def info_result_def calls_of_def)
qed

lemma PlayersInfo_direct:
  assumes "usock s = Some u" and "sends_succeed u" and "u_recvs u = (d1, Inr data) # rest"
    and "\<not> isChallengeResponse Q data"
  shows "fst (PlayersInfo Q s) = PlayersInfoResponse_unmarshalBinary Q data \<and>
         calls_of (snd (PlayersInfo Q s)) =
           u_calls u @ [USend (playersInfoRequest_marshalBinary Q 0), UReceive]"
proof -
  from udp_send_ok [OF assms(2), of "playersInfoRequest_marshalBinary Q 0"] obtain u1 where
    s1: "udp_send u (playersInfoRequest_marshalBinary Q 0) = (None, u1)" and r1: "u_recvs u1 = u_recvs u"
    and c1: "u_calls u1 = u_calls u @ [USend (playersInfoRequest_marshalBinary Q 0)]" by blast
  from udp_receive_next [of u1 d1 "Inr data" rest] r1 assms(3) obtain u2 where
    s2: "udp_receive u1 = (Inr data, u2)" and c2: "u_calls u2 = u_calls u1 @ [UReceive]" by auto
  show ?thesis
    using assms(1,4) s1 s2 c1 c2 by (simp add: PlayersInfo_def calls_of_def)
qed

lemma PlayersInfo_challenged:
  assumes "usock s = Some u" and "sends_succeed u"
    and "u_recvs u = (d1, Inr data) # (d2, Inr data') # rest"
    and "isChallengeResponse Q data" and "ChallengeResponse_unmarshalBinary Q data = Inr ch"
  shows "fst (PlayersInfo Q s) = PlayersInfoResponse_unmarshalBinary Q data' \<and>
         calls_of (snd (PlayersInfo Q s)) =
           u_calls u @ [USend (playersInfoRequest_marshalBinary Q 0), UReceive,
                        USend (playersInfoRequest_marshalBinary Q ch), UReceive]"
proof -
  from udp_send_ok [OF assms(2), of "playersInfoRequest_marshalBinary Q 0"] obtain u1 where
    s1: "udp_send u (playersInfoRequest_marshalBinary Q 0) = (None, u1)" and r1: "u_recvs u1 = u_recvs u"
    and c1: "u_calls u1 = u_calls u @ [USend (playersInfoRequest_marshalBinary Q 0)]"
    and k1: "sends_succeed u1" by blast
  from udp_receive_next [of u1 d1 "Inr data" "(d2, Inr data') # rest"] r1 assms(3) obtain u2 where
    s2: "udp_receive u1 = (Inr data, u2)" and r2: "u_recvs u2 = (d2, Inr data') # rest"
    and c2: "u_calls u2 = u_calls u1 @ [UReceive]" and k2: "sends_succeed u2"
    using k1 by auto
  from udp_send_ok [OF k2, of "playersInfoRequest_marshalBinary Q ch"] obtain u3 where
    s3: "udp_send u2 (playersInfoRequest_marshalBinary Q ch) = (None, u3)" and r3: "u_recvs u3 = u_recvs u2"
    and c3: "u_calls u3 = u_calls u2 @ [USend (playersInfoRequest_marshalBinary Q ch)]" by blast
  from udp_receive_next [of u3 d2 "Inr data'" rest] r3 r2 obtain u4 where
    s4: "udp_receive u3 = (Inr data', u4)" and c4: "u_calls u4 = u_calls u3 @ [UReceive]" by auto
  show ?thesis
    using assms(1,4,5) s1 s2 s3 s4 c1 c2 c3 c4 by (simp add: PlayersInfo_def calls_of_def)
qed

lemma udp_calls_grow:
  "udp_send u p = (e, u') \<Longrightarrow> u_calls u' = u_calls u @ [USend p]"
  "udp_receive u = (r, u'') \<Longrightarrow> u_calls u'' = u_calls u @ [UReceive]"
  by (auto simp: udp_send_def udp_receive_def split: list.splits prod.splits)

lemma Info_at_most_two:
  assumes "usock s = Some u"
  shows "length (calls_of (snd (Info Q s))) \<le> length (u_calls u) + 4"
  using assms
  by (auto simp: Info_def calls_of_def dest!: udp_calls_grow
      split: prod.splits option.splits sum.splits if_splits)

lemma PlayersInfo_at_most_two:
  assumes "usock s = Some u"
  shows "length (calls_of (snd (PlayersInfo Q s))) \<le> length (u_calls u) + 4"
  using assms
  by (auto simp: PlayersInfo_def calls_of_def dest!: udp_calls_grow
      split: prod.splits option.splits sum.splits if_splits)

text \<open>
  C5. For \<open>Info\<close> and \<open>PlayersInfo\<close> on a query socket whose sends succeed and whose first
  receive returns a datagram: when the datagram is not a challenge response, the result is
  parsed from it and one request and one receive are made; when it is a challenge response
  that decodes to a challenge and a second datagram arrives, exactly one more request is
  sent, it carries that challenge, and the result is parsed from the second datagram. In
  every execution at most four calls (two sends, two receives) are made on the socket.
\<close>

theorem challenge_round_trips:
  assumes "usock s = Some u" and "sends_succeed u" and "u_recvs u = (d1, Inr data) # rest"
  shows "(\<not> isChallengeResponse Q data \<longrightarrow>
            fst (Info Q s) = info_result Q data \<and>
            calls_of (snd (Info Q s)) =
              u_calls u @ [USend (infoRequest_marshalBinary Q 0), UReceive] \<and>
            fst (PlayersInfo Q s) = PlayersInfoResponse_unmarshalBinary Q data \<and>
            calls_of (snd (PlayersInfo Q s)) =
              u_calls u @ [USend (playersInfoRequest_marshalBinary Q 0), UReceive]) \<and>
         (isChallengeResponse Q data \<and> ChallengeResponse_unmarshalBinary Q data = Inr ch \<and>
          rest = (d2, Inr data') # rest' \<longrightarrow>
            fst (Info Q s) = info_result Q data' \<and>
            calls_of (snd (Info Q s)) =
              u_calls u @ [USend (infoRequest_marshalBinary Q 0), UReceive,
                           USend (infoRequest_marshalBinary Q ch), UReceive] \<and>
            fst (PlayersInfo Q s) = PlayersInfoResponse_unmarshalBinary Q data' \<and>
            calls_of (snd (PlayersInfo Q s)) =
              u_calls u @ [USend (playersInfoRequest_marshalBinary Q 0), UReceive,
                           USend (playersInfoRequest_marshalBinary Q ch), UReceive]) \<and>
         length (calls_of (snd (Info Q s))) \<le> length (u_calls u) + 4 \<and>
         length (calls_of (snd (PlayersInfo Q s))) \<le> length (u_calls u) + 4"
proof (intro conjI impI)
  assume "\<not> isChallengeResponse Q data"
  note d = Info_direct [OF assms this] PlayersInfo_direct [OF assms this]
  from d(1) show "fst (Info Q s) = info_result Q data" by simp
  from d(1) show "calls_of (snd (Info Q s)) =
              u_calls u @ [USend (infoRequest_marshalBinary Q 0), UReceive]" by simp
  from d(2) show "fst (PlayersInfo Q s) = PlayersInfoResponse_unmarshalBinary Q data" by simp
  from d(2) show "calls_of (snd (PlayersInfo Q s)) =
              u_calls u @ [USend (playersInfoRequest_marshalBinary Q 0), UReceive]" by simp
next
  assume h: "isChallengeResponse Q data \<and> ChallengeResponse_unmarshalBinary Q data = Inr ch \<and>
          rest = (d2, Inr data') # rest'"
  then have r: "u_recvs u = (d1, Inr data) # (d2, Inr data') # rest'"
    using assms(3) by simp
  from h have i: "isChallengeResponse Q data" and p: "ChallengeResponse_unmarshalBinary Q data = Inr ch"
    by simp_all
  note d = Info_challenged [OF assms(1,2) r i p] PlayersInfo_challenged [OF assms(1,2) r i p]
  from d(1) show "fst (Info Q s) = info_result Q data'" by simp
  from d(1) show "calls_of (snd (Info Q s)) =
              u_calls u @ [USend (infoRequest_marshalBinary Q 0), UReceive,
                           USend (infoRequest_marshalBinary Q ch), UReceive]" by simp
  from d(2) show "fst (PlayersInfo Q s) = PlayersInfoResponse_unmarshalBinary Q data'" by simp
  from d(2) show "calls_of (snd (PlayersInfo Q s)) =
              u_calls u @ [USend (playersInfoRequest_marshalBinary Q 0), UReceive,
                           USend (playersInfoRequest_marshalBinary Q ch), UReceive]" by simp
next
  show "length (calls_of (snd (Info Q s))) \<le> length (u_calls u) + 4"
    by (rule Info_at_most_two [OF assms(1)])
  show "length (calls_of (snd (PlayersInfo Q s))) \<le> length (u_calls u) + 4"
    by (rule PlayersInfo_at_most_two [OF assms(1)])
qed

theorem challenge_round_trips_witness:
  "fst (Info a2s_codec
          (server_of (Some (udp_of [(7, Inr [0xFF,0xFF,0xFF,0xFF, 0x49, 1, 2])])) None False)) =
     Inr [1, 2] \<and>
   calls_of (snd (Info a2s_codec
          (server_of (Some (udp_of [(7, Inr [0xFF,0xFF,0xFF,0xFF, 0x49, 1, 2])])) None False))) =
     [USend [0xFF,0xFF,0xFF,0xFF, 0x54, 0,0,0,0], UReceive] \<and>
   fst (Info a2s_codec
          (server_of (Some (udp_of [(7, Inr [0xFF,0xFF,0xFF,0xFF, 0x41, 9,0,0,0]),
                                    (8, Inr [0xFF,0xFF,0xFF,0xFF, 0x49, 1, 2])])) None False)) =
     Inr [1, 2] \<and>
   calls_of (snd (Info a2s_codec
          (server_of (Some (udp_of [(7, Inr [0xFF,0xFF,0xFF,0xFF, 0x41, 9,0,0,0]),
                                    (8, Inr [0xFF,0xFF,0xFF,0xFF, 0x49, 1, 2])])) None False))) =
     [USend [0xFF,0xFF,0xFF,0xFF, 0x54, 0,0,0,0], UReceive,
      USend [0xFF,0xFF,0xFF,0xFF, 0x54, 9,0,0,0], UReceive] \<and>
   calls_of (snd (PlayersInfo a2s_codec
          (server_of (Some (udp_of [(7, Inr [0xFF,0xFF,0xFF,0xFF, 0x41, 9,0,0,0]),
                                    (8, Inr [0xFF,0xFF,0xFF,0xFF, 0x44, 0])])) None False))) =
     [USend [0xFF,0xFF,0xFF,0xFF, 0x55, 0,0,0,0], UReceive,
      USend [0xFF,0xFF,0xFF,0xFF, 0x55, 9,0,0,0], UReceive]"
  using challenge_round_trips
    [of "server_of (Some (udp_of [(7, Inr [0xFF,0xFF,0xFF,0xFF, 0x49, 1, 2])])) None False"
        "udp_of [(7, Inr [0xFF,0xFF,0xFF,0xFF, 0x49, 1, 2])]"
        7 "[0xFF,0xFF,0xFF,0xFF, 0x49, 1, 2]" "[]" a2s_codec]
    challenge_round_trips
    [of "server_of (Some (udp_of [(7, Inr [0xFF,0xFF,0xFF,0xFF, 0x41, 9,0,0,0]),
                                  (8, Inr [0xFF,0xFF,0xFF,0xFF, 0x49, 1, 2])])) None False"
        "udp_of [(7, Inr [0xFF,0xFF,0xFF,0xFF, 0x41, 9,0,0,0]),
                 (8, Inr [0xFF,0xFF,0xFF,0xFF, 0x49, 1, 2])]"
        7 "[0xFF,0xFF,0xFF,0xFF, 0x41, 9,0,0,0]" "[(8, Inr [0xFF,0xFF,0xFF,0xFF, 0x49, 1, 2])]"
        a2s_codec 9 8 "[0xFF,0xFF,0xFF,0xFF, 0x49, 1, 2]" "[]"]
    challenge_round_trips
    [of "server_of (Some (udp_of [(7, Inr [0xFF,0xFF,0xFF,0xFF, 0x41, 9,0,0,0]),
                                  (8, Inr [0xFF,0xFF,0xFF,0xFF, 0x44, 0])])) None False"
        "udp_of [(7, Inr [0xFF,0xFF,0xFF,0xFF, 0x41, 9,0,0,0]),
                 (8, Inr [0xFF,0xFF,0xFF,0xFF, 0x44, 0])]"
        7 "[0xFF,0xFF,0xFF,0xFF, 0x41, 9,0,0,0]" "[(8, Inr [0xFF,0xFF,0xFF,0xFF, 0x44, 0])]"
        a2s_codec 9 8 "[0xFF,0xFF,0xFF,0xFF, 0x44, 0]" "[]"]
  by (simp add: server_of_def udp_of_def sends_succeed_def a2s_codec_def info_result_def
      requestPrefix_def writeLong_def le32_def)

section \<open>Ping\<close>

text \<open>
  C10. Whatever the send of the info request returns, \<open>Ping\<close> goes on to receive; it
  returns the error of the receive when the receive fails, and otherwise the time elapsed
  between the clock reading before the send and the one after the receive, whatever the
  datagram holds.
\<close>

theorem Ping_result:
  assumes "usock s = Some u" and "udp_send u (infoRequest_marshalBinary Q 0) = (e, u1)"
    and "udp_receive u1 = (r, u2)"
  shows "fst (Ping Q s) = (case r of Inl err \<Rightarrow> Inl err | Inr data \<Rightarrow> Inr (u_now u2 - u_now u)) \<and>
         calls_of (snd (Ping Q s)) = u_calls u @ [USend (infoRequest_marshalBinary Q 0), UReceive]"
  using assms udp_calls_grow(1) [OF assms(2)] udp_calls_grow(2) [OF assms(3)]
  by (auto simp: Ping_def calls_of_def split: sum.splits)



theorem Ping_result_witness:
  "fst (Ping a2s_codec
          (server_of (Some ((udp_of [(30, Inr [0xFF,0xFF,0xFF,0xFF, 0x41, 9,0,0,0])])
                              \<lparr>u_sends := [(12, Some (ErrNet ''network is unreachable''))]\<rparr>))
             None False)) = Inr 42 \<and>
   fst (Ping a2s_codec (server_of (Some (udp_of [(400000000, Inl ErrTimeout)])) None False)) =
     Inl ErrTimeout"
  using Ping_result
    [of "server_of (Some ((udp_of [(30, Inr [0xFF,0xFF,0xFF,0xFF, 0x41, 9,0,0,0])])
                              \<lparr>u_sends := [(12, Some (ErrNet ''network is unreachable''))]\<rparr>))
             None False"
        "(udp_of [(30, Inr [0xFF,0xFF,0xFF,0xFF, 0x41, 9,0,0,0])])
                              \<lparr>u_sends := [(12, Some (ErrNet ''network is unreachable''))]\<rparr>"
        a2s_codec
        "Some (ErrNet ''network is unreachable'')"
        "\<lparr>u_sends = [], u_recvs = [(30, Inr [0xFF,0xFF,0xFF,0xFF, 0x41, 9,0,0,0])], u_now = 12,
          u_calls = [USend (infoRequest_marshalBinary a2s_codec 0)], u_closed = False\<rparr>"
        "Inr [0xFF,0xFF,0xFF,0xFF, 0x41, 9,0,0,0]"
        "\<lparr>u_sends = [], u_recvs = [], u_now = 42,
          u_calls = [USend (infoRequest_marshalBinary a2s_codec 0), UReceive], u_closed = False\<rparr>"]
    Ping_result
    [of "server_of (Some (udp_of [(400000000, Inl ErrTimeout)])) None False"
        "udp_of [(400000000, Inl ErrTimeout)]"
        a2s_codec None
        "\<lparr>u_sends = [], u_recvs = [(400000000, Inl ErrTimeout)], u_now = 0,
          u_calls = [USend (infoRequest_marshalBinary a2s_codec 0)], u_closed = False\<rparr>"
        "Inl ErrTimeout"
        "\<lparr>u_sends = [], u_recvs = [], u_now = 400000000,
          u_calls = [USend (infoRequest_marshalBinary a2s_codec 0), UReceive], u_closed = False\<rparr>"]
  by (simp add: server_of_def udp_of_def udp_send_def udp_receive_def)

end
